theory Spec2Isabelle
  imports Main "HOL-Library.Word" "HOL-Library.AList"
begin

unbundle bit_operations_syntax

section \<open>Python values, exceptions and time\<close>

text \<open>
  The values a claims dictionary can hold. \<open>PDatetime\<close> is an aware \<open>datetime\<close> in UTC,
  counted in microseconds since the epoch; \<open>PObject\<close> stands for any object that
  \<open>json.dumps\<close> cannot serialise (a set, bytes, an instance of a class). Dictionaries are
  association lists with string keys, in insertion order. Floats are not modelled.
\<close>

datatype pyval =
    PNone
  | PBool bool
  | PInt int
  | PStr string
  | PDatetime int
  | PList "pyval list"
  | PDict "(string \<times> pyval) list"
  | PObject nat

type_synonym claims = "(string \<times> pyval) list"

type_synonym byte = "8 word"

text \<open>
  Exceptions. \<open>InvalidTokenError\<close> carries the subclass that PyJWT raised; \<open>InvalidKeyError\<close>
  derives from \<open>PyJWTError\<close> but not from \<open>InvalidTokenError\<close>.
\<close>

datatype token_error =
    DecodeError
  | InvalidAlgorithmError
  | InvalidSignatureError
  | MissingRequiredClaimError string
  | ExpiredSignatureError
  | ImmatureSignatureError
  | InvalidIssuedAtError
  | InvalidAudienceError
  | InvalidSubjectError
  | InvalidJTIError

datatype exn =
    TypeError
  | ValueError
  | AttributeError
  | OverflowError
  | NotImplementedError
  | InvalidKeyError
  | InvalidTokenError token_error

text \<open>\<open>d.get(k)\<close>: the value under \<open>k\<close>, or \<open>None\<close>.\<close>

definition dict_get :: "claims \<Rightarrow> string \<Rightarrow> pyval" where
  "dict_get d k = (case map_of d k of None \<Rightarrow> PNone | Some v \<Rightarrow> v)"

text \<open>A Python dictionary has each key once.\<close>

definition is_dict :: "claims \<Rightarrow> bool" where
  "is_dict d = distinct (map fst d)"

text \<open>Truth value of an object, as \<open>not v\<close> and \<open>if v:\<close> read it.\<close>

fun py_truthy :: "pyval \<Rightarrow> bool" where
  "py_truthy PNone = False"
| "py_truthy (PBool b) = b"
| "py_truthy (PInt n) = (n \<noteq> 0)"
| "py_truthy (PStr s) = (s \<noteq> [])"
| "py_truthy (PList xs) = (xs \<noteq> [])"
| "py_truthy (PDict kvs) = (kvs \<noteq> [])"
| "py_truthy (PDatetime t) = True"
| "py_truthy (PObject n) = True"

fun is_str :: "pyval \<Rightarrow> bool" where
  "is_str (PStr s) = True"
| "is_str v = False"

text \<open>What \<open>json.dumps\<close> accepts; on anything else it raises \<open>TypeError\<close>.\<close>

fun json_serialisable :: "pyval \<Rightarrow> bool" where
  "json_serialisable (PList xs) = list_all json_serialisable xs"
| "json_serialisable (PDict kvs) = list_all (\<lambda>kv. json_serialisable (snd kv)) kvs"
| "json_serialisable (PDatetime t) = False"
| "json_serialisable (PObject n) = False"
| "json_serialisable v = True"

text \<open>
  Time. A \<open>datetime\<close> and a \<open>timedelta\<close> are counted in microseconds. Both types are
  bounded: \<open>datetime\<close> to the years 1 to 9999, \<open>timedelta\<close> to 999999999 days either way;
  arithmetic that leaves the range raises \<open>OverflowError\<close>.
\<close>

type_synonym datetime = int
type_synonym timedelta = int

definition datetime_min :: datetime where
  "datetime_min = - 62135596800000000"

definition datetime_max :: datetime where
  "datetime_max = 253402300799999999"

definition timedelta_min :: timedelta where
  "timedelta_min = - 86399999913600000000"

definition timedelta_max :: timedelta where
  "timedelta_max = 86399999999999999999"

text \<open>\<open>dt + delta\<close>\<close>

definition datetime_add :: "datetime \<Rightarrow> timedelta \<Rightarrow> exn + datetime" where
  "datetime_add t d =
     (if datetime_min \<le> t + d \<and> t + d \<le> datetime_max then Inr (t + d) else Inl OverflowError)"

text \<open>\<open>timedelta(minutes=m)\<close>\<close>

definition timedelta_minutes :: "int \<Rightarrow> exn + timedelta" where
  "timedelta_minutes m =
     (if timedelta_min \<le> m * 60000000 \<and> m * 60000000 \<le> timedelta_max
      then Inr (m * 60000000) else Inl OverflowError)"

text \<open>\<open>timegm(dt.utctimetuple())\<close>: whole seconds since the epoch, microseconds dropped.\<close>

definition timegm :: "datetime \<Rightarrow> int" where
  "timegm t = t div 1000000"

section \<open>Configuration (config.py)\<close>

record settings =
  debug :: bool
  database_url :: string
  secret_key :: string
  algorithm :: string
  access_token_expire_minutes :: int

text \<open>The defaults of class \<open>Settings\<close>, used when the environment overrides nothing.\<close>

definition default_settings :: settings where
  "default_settings =
     \<lparr> debug = True,
       database_url = ''sqlite+aiosqlite:///./blog.db'',
       secret_key = ''my-secret-key-2026'',
       algorithm = ''HS256'',
       access_token_expire_minutes = 30 \<rparr>"

section \<open>Tokens and the interface of the jwt module\<close>

text \<open>
  A token is a string. It is modelled by what the parser of the jwt module makes of it:
  \<^item> \<open>Malformed s\<close>: a string that does not split into three base64url segments with a
    JSON object as the first one;
  \<^item> \<open>Compact hdr payload sig\<close>: the JOSE header, the JSON value of the payload segment
    (\<open>PObject\<close> when the segment is not JSON at all) and the signature bytes.

  A string on which the parser raises something other than \<open>DecodeError\<close> has no
  counterpart here: a string with a lone surrogate, which has no UTF-8 encoding
  (\<open>UnicodeEncodeError\<close>), and a header or payload nested deeper than the interpreter's
  recursion limit (\<open>RecursionError\<close>).
\<close>

datatype token =
    Malformed string
  | Compact claims pyval "byte list"

text \<open>
  src/auth.py calls two functions of the external package PyJWT:
  \<open>jwt.encode(payload, key, algorithm=...)\<close> and
  \<open>jwt.decode(token, key, algorithms=[...], options={"require": [...]})\<close>.
  The functions of auth.py take the module as a parameter. \<open>jwt_decode\<close> also takes the
  instant at which it reads the clock.
\<close>

record jwt_module =
  jwt_encode :: "claims \<Rightarrow> string \<Rightarrow> string \<Rightarrow> exn + token"
  jwt_decode :: "datetime \<Rightarrow> token \<Rightarrow> string \<Rightarrow> string list \<Rightarrow> string list \<Rightarrow> exn + claims"

section \<open>The token functions of src/auth.py\<close>

text \<open>
  \<^verbatim>\<open>
  def create_access_token(data: dict, expires_delta: timedelta | None = None) -> str:
      to_encode = data.copy()
      if expires_delta:
          expire = datetime.now(UTC) + expires_delta
      else:
          expire = datetime.now(UTC) + timedelta(
              minutes=settings.access_token_expire_minutes,
          )
      to_encode.update({"exp": expire})
      encoded_jwt = jwt.encode(
          to_encode,
          settings.secret_key.get_secret_value(),
          algorithm=settings.algorithm,
      )
      return encoded_jwt
  \<close>
  \<open>if expires_delta:\<close> tests the truth value of the argument: \<open>None\<close> is false, and so is
  \<open>timedelta(0)\<close> (a \<open>timedelta\<close> is true iff it is not zero).
\<close>

definition expiry :: "settings \<Rightarrow> datetime \<Rightarrow> timedelta option \<Rightarrow> exn + datetime" where
  "expiry s now expires_delta =
     (if (case expires_delta of None \<Rightarrow> False | Some d \<Rightarrow> d \<noteq> 0)
      then datetime_add now (the expires_delta)
      else (case timedelta_minutes (access_token_expire_minutes s) of
              Inl e \<Rightarrow> Inl e
            | Inr d \<Rightarrow> datetime_add now d))"

definition create_access_token ::
  "jwt_module \<Rightarrow> settings \<Rightarrow> datetime \<Rightarrow> claims \<Rightarrow> timedelta option \<Rightarrow> exn + token" where
  "create_access_token J s now data expires_delta =
     (case expiry s now expires_delta of
        Inl e \<Rightarrow> Inl e
      | Inr expire \<Rightarrow>
          jwt_encode J (AList.update ''exp'' (PDatetime expire) data) (secret_key s) (algorithm s))"

text \<open>
  \<^verbatim>\<open>
  def verify_access_token(token: str) -> str | None:
      try:
          payload = jwt.decode(
              token,
              settings.secret_key.get_secret_value(),
              algorithms=[settings.algorithm],
              options={"require": ["exp", "sub"]},
          )
      except jwt.InvalidTokenError:
          return None
      else:
          return payload.get("sub")
  \<close>
  Only \<open>InvalidTokenError\<close> and its subclasses are caught; any other exception leaves the
  function.
\<close>

definition verify_access_token ::
  "jwt_module \<Rightarrow> settings \<Rightarrow> datetime \<Rightarrow> token \<Rightarrow> exn + pyval" where
  "verify_access_token J s now tok =
     (case jwt_decode J now tok (secret_key s) [algorithm s] [''exp'', ''sub''] of
        Inl (InvalidTokenError e) \<Rightarrow> Inr PNone
      | Inl e \<Rightarrow> Inl e
      | Inr payload \<Rightarrow> Inr (dict_get payload ''sub''))"

section \<open>The process: configuration, clock and dictionary objects\<close>

text \<open>
  The token functions read two things outside their arguments: the module-level \<open>settings\<close>
  object and the clock. Their dictionary argument is a reference to an object that the
  caller keeps. The process state holds the three: \<open>config\<close>, \<open>clock\<close>, and \<open>heap\<close>, the
  dictionary objects addressed by their index (\<open>data.copy()\<close> allocates the next index).
  The functions of the jwt module are functions of their arguments (\<open>jwt.encode\<close> copies
  the payload before it converts the time claims; \<open>jwt.decode\<close> writes no module state).
\<close>

record process =
  config :: settings
  clock :: datetime
  heap :: "claims list"

definition create_access_token_proc ::
  "jwt_module \<Rightarrow> process \<Rightarrow> nat \<Rightarrow> timedelta option \<Rightarrow> (exn + token) \<times> process" where
  "create_access_token_proc J st data expires_delta =
     (if length (heap st) \<le> data then (Inl AttributeError, st)
      else
        let to_encode = length (heap st);
            h1 = heap st @ [heap st ! data]
        in (case expiry (config st) (clock st) expires_delta of
              Inl e \<Rightarrow> (Inl e, st\<lparr>heap := h1\<rparr>)
            | Inr expire \<Rightarrow>
                let h2 = h1[to_encode := AList.update ''exp'' (PDatetime expire) (h1 ! to_encode)]
                in (jwt_encode J (h2 ! to_encode) (secret_key (config st)) (algorithm (config st)),
                    st\<lparr>heap := h2\<rparr>)))"


section \<open>The jwt module: a model of PyJWT\<close>

text \<open>
  PyJWT is an external package; auth.py imports it and the repository does not contain it.
  The model follows the package's functions (\<open>jwt/api_jwt.py\<close>, \<open>jwt/api_jws.py\<close>,
  \<open>jwt/algorithms.py\<close>) for the calls auth.py makes: no \<open>audience\<close>, \<open>issuer\<close>, \<open>subject\<close> or
  \<open>leeway\<close> argument, every \<open>verify_*\<close> option at its default. It covers the algorithms that
  PyJWT registers without the optional \<open>cryptography\<close> package: \<open>none\<close> and the HMAC family.
  The excerpts quoted with the definitions are abridged from PyJWT 2.10. JSON numbers that
  are not integers are left out, as floats are.

  What the model leaves open is a parameter, the \<open>platform\<close>:
  \<^item> \<open>digest name\<close>: the hash function \<open>hashlib\<close> provides under \<open>name\<close>;
  \<^item> \<open>segment v\<close>: the base64url text of \<open>json.dumps(v, separators=(",", ":"))\<close>, the
    bytes that carry the JSON value \<open>v\<close> in a token;
  \<^item> \<open>is_asymmetric_key k\<close>: \<open>is_pem_format(k) or is_ssh_key(k)\<close>, the keys the HMAC
    algorithms refuse;
  \<^item> \<open>int_of_str s\<close>: \<open>int(s)\<close> for a string (\<open>None\<close> when it raises \<open>ValueError\<close>);
  \<^item> \<open>strict_claim_types\<close>: PyJWT 2.10 and later check that the \<open>iss\<close>, \<open>sub\<close> and \<open>jti\<close>
    claims are strings; earlier releases do not.
\<close>

record platform =
  digest :: "string \<Rightarrow> byte list \<Rightarrow> byte list"
  segment :: "pyval \<Rightarrow> byte list"
  is_asymmetric_key :: "byte list \<Rightarrow> bool"
  int_of_str :: "string \<Rightarrow> int option"
  strict_claim_types :: bool

text \<open>\<open>force_bytes(key)\<close>: a string is a list of bytes (its UTF-8 encoding).\<close>

definition force_bytes :: "string \<Rightarrow> byte list" where
  "force_bytes s = map of_char s"

text \<open>
  \<open>hmac.new(key, msg, hash).digest()\<close>, RFC 2104: a key longer than the block size \<open>B\<close> is
  hashed first; the key is then padded with zero bytes to \<open>B\<close> bytes.
\<close>

definition hmac :: "(byte list \<Rightarrow> byte list) \<Rightarrow> nat \<Rightarrow> byte list \<Rightarrow> byte list \<Rightarrow> byte list" where
  "hmac H B key msg =
     (let k0 = (if B < length key then H key else key);
          k = k0 @ replicate (B - length k0) 0
      in H (map (\<lambda>b. b XOR 0x5C) k @ H (map (\<lambda>b. b XOR 0x36) k @ msg)))"

text \<open>The algorithm objects of \<open>jwt/algorithms.py\<close>: hash name and block size for HMAC.\<close>

datatype algorithm_obj = NoneAlgorithm | HMACAlgorithm string nat

definition get_algorithm_by_name :: "string \<Rightarrow> algorithm_obj option" where
  "get_algorithm_by_name name =
     (if name = ''none'' then Some NoneAlgorithm
      else if name = ''HS256'' then Some (HMACAlgorithm ''sha256'' 64)
      else if name = ''HS384'' then Some (HMACAlgorithm ''sha384'' 128)
      else if name = ''HS512'' then Some (HMACAlgorithm ''sha512'' 128)
      else None)"

fun prepare_key :: "platform \<Rightarrow> algorithm_obj \<Rightarrow> string \<Rightarrow> exn + byte list" where
  "prepare_key P NoneAlgorithm key = (if key = [] then Inr [] else Inl InvalidKeyError)"
| "prepare_key P (HMACAlgorithm h B) key =
     (if is_asymmetric_key P (force_bytes key) then Inl InvalidKeyError
      else Inr (force_bytes key))"

fun sign :: "platform \<Rightarrow> algorithm_obj \<Rightarrow> byte list \<Rightarrow> byte list \<Rightarrow> byte list" where
  "sign P NoneAlgorithm msg key = []"
| "sign P (HMACAlgorithm h B) msg key = hmac (digest P h) B key msg"

fun alg_verify :: "platform \<Rightarrow> algorithm_obj \<Rightarrow> byte list \<Rightarrow> byte list \<Rightarrow> byte list \<Rightarrow> bool" where
  "alg_verify P NoneAlgorithm msg key sig = False"
| "alg_verify P (HMACAlgorithm h B) msg key sig = (sig = sign P (HMACAlgorithm h B) msg key)"

text \<open>The bytes that are signed: header segment, a dot, payload segment.\<close>

definition signing_input :: "platform \<Rightarrow> claims \<Rightarrow> pyval \<Rightarrow> byte list" where
  "signing_input P hdr payload = segment P (PDict hdr) @ [0x2E] @ segment P payload"

subsection \<open>jwt.encode\<close>

text \<open>
  \<^verbatim>\<open>
  payload = payload.copy()
  for time_claim in ["exp", "iat", "nbf"]:
      if isinstance(payload.get(time_claim), datetime):
          payload[time_claim] = timegm(payload[time_claim].utctimetuple())
  if "iss" in payload and not isinstance(payload["iss"], str):   # PyJWT 2.10
      raise TypeError("Issuer (iss) must be a string.")
  json_payload = json.dumps(payload, separators=(",", ":")).encode("utf-8")
  \<close>
  and then, in \<open>api_jws.encode\<close>,
  \<^verbatim>\<open>
  header = {"typ": "JWT", "alg": algorithm}
  alg_obj = self.get_algorithm_by_name(algorithm)     # NotImplementedError
  key = alg_obj.prepare_key(key)                      # InvalidKeyError
  signature = alg_obj.sign(signing_input, key)
  \<close>
\<close>

definition convert_time_claim :: "string \<Rightarrow> claims \<Rightarrow> claims" where
  "convert_time_claim k payload =
     (case dict_get payload k of
        PDatetime t \<Rightarrow> AList.update k (PInt (timegm t)) payload
      | _ \<Rightarrow> payload)"

definition jose_header :: "string \<Rightarrow> claims" where
  "jose_header alg = [(''alg'', PStr alg), (''typ'', PStr ''JWT'')]"

definition pyjwt_encode :: "platform \<Rightarrow> claims \<Rightarrow> string \<Rightarrow> string \<Rightarrow> exn + token" where
  "pyjwt_encode P payload key alg =
     (let p = convert_time_claim ''nbf'' (convert_time_claim ''iat''
                (convert_time_claim ''exp'' payload))
      in if strict_claim_types P \<and>
            (case map_of p ''iss'' of None \<Rightarrow> False | Some v \<Rightarrow> \<not> is_str v)
         then Inl TypeError
         else if \<not> json_serialisable (PDict p) then Inl TypeError
         else (case get_algorithm_by_name alg of
                 None \<Rightarrow> Inl NotImplementedError
               | Some obj \<Rightarrow>
                   (case prepare_key P obj key of
                      Inl e \<Rightarrow> Inl e
                    | Inr kb \<Rightarrow>
                        Inr (Compact (jose_header alg) (PDict p)
                               (sign P obj (signing_input P (jose_header alg) (PDict p)) kb)))))"

subsection \<open>jwt.decode\<close>

text \<open>
  \<open>int(v)\<close> on a JSON value: an integer or boolean converts, a string is parsed (\<open>ValueError\<close> when it is
  no integer literal), and \<open>None\<close>, a list or an object raise \<open>TypeError\<close>.
\<close>

fun py_int :: "platform \<Rightarrow> pyval \<Rightarrow> exn + int" where
  "py_int P (PInt n) = Inr n"
| "py_int P (PBool b) = Inr (if b then 1 else 0)"
| "py_int P (PStr s) = (case int_of_str P s of None \<Rightarrow> Inl ValueError | Some n \<Rightarrow> Inr n)"
| "py_int P v = Inl TypeError"

text \<open>
  \<open>_verify_signature\<close> of \<open>api_jws\<close>; \<open>None\<close> is a signature that verifies.
  \<^verbatim>\<open>
  try:
      alg = header["alg"]
  except KeyError:
      raise InvalidAlgorithmError("Algorithm not specified") from None
  if not alg or (algorithms is not None and alg not in algorithms):
      raise InvalidAlgorithmError("The specified alg value is not allowed")
  try:
      alg_obj = self.get_algorithm_by_name(alg)
  except NotImplementedError as e:
      raise InvalidAlgorithmError("Algorithm not supported") from e
  prepared_key = alg_obj.prepare_key(key)
  if not alg_obj.verify(signing_input, prepared_key, signature):
      raise InvalidSignatureError("Signature verification failed")
  \<close>
\<close>

definition verify_signature ::
  "platform \<Rightarrow> claims \<Rightarrow> pyval \<Rightarrow> byte list \<Rightarrow> string \<Rightarrow> string list \<Rightarrow> exn option" where
  "verify_signature P hdr payload sig key algorithms =
     (case map_of hdr ''alg'' of
        None \<Rightarrow> Some (InvalidTokenError InvalidAlgorithmError)
      | Some (PStr name) \<Rightarrow>
          if name = [] \<or> name \<notin> set algorithms
          then Some (InvalidTokenError InvalidAlgorithmError)
          else (case get_algorithm_by_name name of
                  None \<Rightarrow> Some (InvalidTokenError InvalidAlgorithmError)
                | Some obj \<Rightarrow>
                    (case prepare_key P obj key of
                       Inl e \<Rightarrow> Some e
                     | Inr kb \<Rightarrow>
                         if alg_verify P obj (signing_input P hdr payload) kb sig then None
                         else Some (InvalidTokenError InvalidSignatureError)))
      | Some v \<Rightarrow> Some (InvalidTokenError InvalidAlgorithmError))"

text \<open>
  The claim checks of \<open>_validate_claims\<close>, in its order; \<open>None\<close> is a check that passes.
  \<open>now\<close> is the clock in microseconds; PyJWT compares whole-second claims with
  \<open>datetime.now(tz=timezone.utc).timestamp()\<close>.
  \<^verbatim>\<open>
  for claim in options["require"]:
      if payload.get(claim) is None:
          raise MissingRequiredClaimError(claim)
  \<close>
\<close>

definition validate_required_claims :: "claims \<Rightarrow> string list \<Rightarrow> exn option" where
  "validate_required_claims payload require =
     (case filter (\<lambda>c. dict_get payload c = PNone) require of
        [] \<Rightarrow> None
      | c # cs \<Rightarrow> Some (InvalidTokenError (MissingRequiredClaimError c)))"

text \<open>
  \<^verbatim>\<open>
  try:
      iat = int(payload["iat"])
  except ValueError:
      raise InvalidIssuedAtError("Issued At claim (iat) must be an integer.") from None
  if iat > (now + leeway):
      raise ImmatureSignatureError("The token is not yet valid (iat)")
  \<close>
  Only \<open>ValueError\<close> is caught, here and for \<open>nbf\<close> and \<open>exp\<close>.
\<close>

definition validate_iat :: "platform \<Rightarrow> datetime \<Rightarrow> claims \<Rightarrow> exn option" where
  "validate_iat P now payload =
     (case map_of payload ''iat'' of
        None \<Rightarrow> None
      | Some v \<Rightarrow>
          (case py_int P v of
             Inl ValueError \<Rightarrow> Some (InvalidTokenError InvalidIssuedAtError)
           | Inl e \<Rightarrow> Some e
           | Inr iat \<Rightarrow>
               if now < iat * 1000000 then Some (InvalidTokenError ImmatureSignatureError)
               else None))"

text \<open>
  \<^verbatim>\<open>
  try:
      nbf = int(payload["nbf"])
  except ValueError:
      raise DecodeError("Not Before claim (nbf) must be an integer.") from None
  if nbf > (now + leeway):
      raise ImmatureSignatureError("The token is not yet valid (nbf)")
  \<close>
\<close>

definition validate_nbf :: "platform \<Rightarrow> datetime \<Rightarrow> claims \<Rightarrow> exn option" where
  "validate_nbf P now payload =
     (case map_of payload ''nbf'' of
        None \<Rightarrow> None
      | Some v \<Rightarrow>
          (case py_int P v of
             Inl ValueError \<Rightarrow> Some (InvalidTokenError DecodeError)
           | Inl e \<Rightarrow> Some e
           | Inr nbf \<Rightarrow>
               if now < nbf * 1000000 then Some (InvalidTokenError ImmatureSignatureError)
               else None))"

text \<open>
  \<^verbatim>\<open>
  try:
      exp = int(payload["exp"])
  except ValueError:
      raise DecodeError("Expiration Time claim (exp) must be an integer.") from None
  if exp <= (now - leeway):
      raise ExpiredSignatureError("Signature has expired")
  \<close>
\<close>

definition validate_exp :: "platform \<Rightarrow> datetime \<Rightarrow> claims \<Rightarrow> exn option" where
  "validate_exp P now payload =
     (case map_of payload ''exp'' of
        None \<Rightarrow> None
      | Some v \<Rightarrow>
          (case py_int P v of
             Inl ValueError \<Rightarrow> Some (InvalidTokenError DecodeError)
           | Inl e \<Rightarrow> Some e
           | Inr exp \<Rightarrow>
               if exp * 1000000 \<le> now then Some (InvalidTokenError ExpiredSignatureError)
               else None))"

text \<open>
  With no \<open>audience\<close> argument:
  \<^verbatim>\<open>
  if "aud" not in payload or not payload["aud"]:
      return
  raise InvalidAudienceError("Invalid audience")
  \<close>
\<close>

definition validate_aud :: "claims \<Rightarrow> exn option" where
  "validate_aud payload =
     (case map_of payload ''aud'' of
        None \<Rightarrow> None
      | Some v \<Rightarrow> if py_truthy v then Some (InvalidTokenError InvalidAudienceError) else None)"

text \<open>
  PyJWT 2.10: a \<open>sub\<close> claim must be a string (\<open>InvalidSubjectError\<close>), and so must a \<open>jti\<close>
  claim (\<open>InvalidJTIError\<close>).
\<close>

definition validate_sub :: "platform \<Rightarrow> claims \<Rightarrow> exn option" where
  "validate_sub P payload =
     (case map_of payload ''sub'' of
        None \<Rightarrow> None
      | Some v \<Rightarrow>
          if strict_claim_types P \<and> \<not> is_str v then Some (InvalidTokenError InvalidSubjectError)
          else None)"

definition validate_jti :: "platform \<Rightarrow> claims \<Rightarrow> exn option" where
  "validate_jti P payload =
     (case map_of payload ''jti'' of
        None \<Rightarrow> None
      | Some v \<Rightarrow>
          if strict_claim_types P \<and> \<not> is_str v then Some (InvalidTokenError InvalidJTIError)
          else None)"

text \<open>The first check that fails decides.\<close>

fun first_error :: "exn option list \<Rightarrow> exn option" where
  "first_error [] = None"
| "first_error (None # cs) = first_error cs"
| "first_error (Some e # cs) = Some e"

definition validate_claims :: "platform \<Rightarrow> datetime \<Rightarrow> claims \<Rightarrow> string list \<Rightarrow> exn option" where
  "validate_claims P now payload require =
     first_error
       [validate_required_claims payload require,
        validate_iat P now payload,
        validate_nbf P now payload,
        validate_exp P now payload,
        validate_aud payload,
        validate_sub P payload,
        validate_jti P payload]"

text \<open>
  \<open>jwt.decode\<close>: the token is parsed (\<open>DecodeError\<close>), the signature is verified, the payload
  must be a JSON object (\<open>DecodeError\<close>), the claims are validated, the payload is returned.
  A header with \<open>"b64": false\<close> announces a detached payload, which auth.py does not pass
  (\<open>DecodeError\<close>).
\<close>

definition pyjwt_decode ::
  "platform \<Rightarrow> datetime \<Rightarrow> token \<Rightarrow> string \<Rightarrow> string list \<Rightarrow> string list \<Rightarrow> exn + claims" where
  "pyjwt_decode P now tok key algorithms require =
     (if algorithms = [] then Inl (InvalidTokenError DecodeError)
      else
        (case tok of
           Malformed s \<Rightarrow> Inl (InvalidTokenError DecodeError)
         | Compact hdr payload sig \<Rightarrow>
             if map_of hdr ''b64'' = Some (PBool False) then Inl (InvalidTokenError DecodeError)
             else
               (case verify_signature P hdr payload sig key algorithms of
                  Some e \<Rightarrow> Inl e
                | None \<Rightarrow>
                    (case payload of
                       PDict cs \<Rightarrow>
                         (case validate_claims P now cs require of
                            Some e \<Rightarrow> Inl e
                          | None \<Rightarrow> Inr cs)
                     | _ \<Rightarrow> Inl (InvalidTokenError DecodeError)))))"

definition PyJWT :: "platform \<Rightarrow> jwt_module" where
  "PyJWT P = \<lparr> jwt_encode = pyjwt_encode P, jwt_decode = pyjwt_decode P \<rparr>"

subsection \<open>Issuing and then verifying\<close>

text \<open>
  A token is issued under the settings \<open>s\<close> at the instant \<open>now\<close> and, when issuance
  returned one, verified under the settings \<open>s'\<close> at the instant \<open>now'\<close>. The outer \<open>Inl\<close> is an
  exception of \<open>create_access_token\<close>, the inner result is that of \<open>verify_access_token\<close>.
\<close>

definition issue_then_verify ::
  "jwt_module \<Rightarrow> settings \<Rightarrow> datetime \<Rightarrow> claims \<Rightarrow> timedelta option \<Rightarrow>
   settings \<Rightarrow> datetime \<Rightarrow> exn + (exn + pyval)" where
  "issue_then_verify J s now data expires_delta s' now' =
     (case create_access_token J s now data expires_delta of
        Inl e \<Rightarrow> Inl e
      | Inr tok \<Rightarrow> Inr (verify_access_token J s' now' tok))"

subsection \<open>Predicates used in the statements\<close>

text \<open>The exceptions that \<open>except jwt.InvalidTokenError\<close> catches.\<close>

fun is_token_error :: "exn \<Rightarrow> bool" where
  "is_token_error (InvalidTokenError e) = True"
| "is_token_error e = False"

text \<open>The HMAC algorithms, and settings under which \<open>jwt.encode\<close> signs with one of them.\<close>

definition hmac_algorithm :: "string \<Rightarrow> bool" where
  "hmac_algorithm a = (a = ''HS256'' \<or> a = ''HS384'' \<or> a = ''HS512'')"

definition usable_settings :: "platform \<Rightarrow> settings \<Rightarrow> bool" where
  "usable_settings P s =
     (hmac_algorithm (algorithm s) \<and> \<not> is_asymmetric_key P (force_bytes (secret_key s)))"

text \<open>
  The configured key is one that \<open>prepare_key\<close> of the configured algorithm accepts (an
  algorithm that PyJWT does not register never gets to prepare a key).
\<close>

definition key_accepted :: "platform \<Rightarrow> settings \<Rightarrow> bool" where
  "key_accepted P s =
     (case get_algorithm_by_name (algorithm s) of
        None \<Rightarrow> True
      | Some obj \<Rightarrow> (case prepare_key P obj (secret_key s) of Inl e \<Rightarrow> False | Inr kb \<Rightarrow> True))"

text \<open>Every value of the dictionary, the one under \<open>exp\<close> apart, can be serialised.\<close>

definition serialisable_claims :: "claims \<Rightarrow> bool" where
  "serialisable_claims data = list_all (\<lambda>kv. fst kv = ''exp'' \<or> json_serialisable (snd kv)) data"

text \<open>The dictionary carries none of the registered claims that PyJWT checks besides \<open>exp\<close> and \<open>sub\<close>.\<close>

definition plain_claims :: "claims \<Rightarrow> bool" where
  "plain_claims data =
     list_all (\<lambda>k. map_of data k = None) [''aud'', ''iat'', ''nbf'', ''iss'', ''jti'']"

text \<open>
  The payload of the token that \<open>create_access_token\<close> issues for \<open>data\<close> with the expiry
  \<open>expire\<close>: the copy with its \<open>exp\<close> entry, after \<open>jwt.encode\<close> converted the time claims.
\<close>

definition issued_claims :: "datetime \<Rightarrow> claims \<Rightarrow> claims" where
  "issued_claims expire data =
     convert_time_claim ''nbf'' (convert_time_claim ''iat''
       (convert_time_claim ''exp'' (AList.update ''exp'' (PDatetime expire) data)))"

text \<open>The claims of a token: the payload when it is a JSON object.\<close>

fun token_claims :: "token \<Rightarrow> claims" where
  "token_claims (Compact hdr (PDict cs) sig) = cs"
| "token_claims tok = []"

text \<open>The values on which \<open>int\<close> does not raise \<open>TypeError\<close>.\<close>

fun int_convertible :: "pyval \<Rightarrow> bool" where
  "int_convertible (PInt n) = True"
| "int_convertible (PBool b) = True"
| "int_convertible (PStr s) = True"
| "int_convertible v = False"

definition time_claims_convertible :: "token \<Rightarrow> bool" where
  "time_claims_convertible tok =
     list_all (\<lambda>k. case map_of (token_claims tok) k of None \<Rightarrow> True | Some v \<Rightarrow> int_convertible v)
       [''iat'', ''nbf'', ''exp'']"

text \<open>
  The token parses, announces no detached payload, and its signature verifies under the
  configured key for the configured algorithm.
\<close>

fun jws_verified :: "platform \<Rightarrow> settings \<Rightarrow> token \<Rightarrow> bool" where
  "jws_verified P s (Malformed x) = False"
| "jws_verified P s (Compact hdr payload sig) =
     (map_of hdr ''b64'' \<noteq> Some (PBool False) \<and>
      verify_signature P hdr payload sig (secret_key s) [algorithm s] = None)"


text \<open>
  The signature that the settings \<open>s\<close> give the header and payload of a token: what
  \<open>jwt.encode\<close> appends under \<open>s\<close>, and what \<open>jwt.decode\<close> under \<open>s\<close> compares with.
\<close>

fun tag :: "platform \<Rightarrow> settings \<Rightarrow> token \<Rightarrow> byte list" where
  "tag P s (Malformed x) = []"
| "tag P s (Compact hdr payload sig) =
     (case get_algorithm_by_name (algorithm s) of
        None \<Rightarrow> []
      | Some obj \<Rightarrow> sign P obj (signing_input P hdr payload) (force_bytes (secret_key s)))"

subsection \<open>A concrete platform for closed examples\<close>

text \<open>
  The digest is the identity, so that a tag shows the padded key; no key is refused; no
  string is an integer literal; claim types are checked as in PyJWT 2.10.
\<close>

definition test_platform :: platform where
  "test_platform =
     \<lparr> digest = (\<lambda>name msg. msg),
       segment = (\<lambda>v. []),
       is_asymmetric_key = (\<lambda>k. False),
       int_of_str = (\<lambda>s. None),
       strict_claim_types = True \<rparr>"

text \<open>An instant of issuance: 2026-01-01T00:00:00.250000 UTC.\<close>

definition t0 :: datetime where
  "t0 = 1767225600250000"

definition minutes :: "int \<Rightarrow> timedelta" where
  "minutes m = m * 60000000"

text \<open>
  The token that \<open>create_access_token\<close> issues for \<open>data\<close> on the concrete platform, under
  the default settings, at \<open>t0\<close>, for thirty minutes.
\<close>

definition issued_example :: "claims \<Rightarrow> token" where
  "issued_example data =
     (case create_access_token (PyJWT test_platform) default_settings t0 data (Some (minutes 30)) of
        Inl e \<Rightarrow> Malformed []
      | Inr tok \<Rightarrow> tok)"

text \<open>A process whose only dictionary object is the caller's \<open>{"sub": "42"}\<close>.\<close>

definition example_process :: process where
  "example_process =
     \<lparr> config = default_settings, clock = t0, heap = [[(''sub'', PStr ''42'')]] \<rparr>"

section \<open>Properties of the token functions\<close>

subsection \<open>Dictionaries and the claims of an issued token\<close>

lemma map_of_convert_time_claim:
  "map_of (convert_time_claim k payload) k' =
     (if k' = k then (case map_of payload k of Some (PDatetime t) \<Rightarrow> Some (PInt (timegm t)) | x \<Rightarrow> x)
      else map_of payload k')"
proof (cases "map_of payload k")
  case None
  then show ?thesis by (simp add: convert_time_claim_def dict_get_def)
next
  case (Some v)
  then show ?thesis
    by (cases v) (simp_all add: convert_time_claim_def dict_get_def update_conv')
qed

lemma convert_time_claim_absent:
  "map_of payload k = None \<Longrightarrow> convert_time_claim k payload = payload"
  by (simp add: convert_time_claim_def dict_get_def)

lemma map_of_issued_claims_exp:
  "map_of (issued_claims e data) ''exp'' = Some (PInt (timegm e))"
  by (simp add: issued_claims_def map_of_convert_time_claim update_conv')

lemma map_of_issued_claims_other:
  "k \<noteq> ''exp'' \<Longrightarrow> k \<noteq> ''iat'' \<Longrightarrow> k \<noteq> ''nbf'' \<Longrightarrow>
   map_of (issued_claims e data) k = map_of data k"
  by (simp add: issued_claims_def map_of_convert_time_claim update_conv')

lemma issued_claims_plain:
  assumes "map_of data ''iat'' = None" and "map_of data ''nbf'' = None"
  shows "issued_claims e data = AList.update ''exp'' (PInt (timegm e)) data"
proof -
  have 1: "convert_time_claim ''exp'' (AList.update ''exp'' (PDatetime e) data)
           = AList.update ''exp'' (PInt (timegm e)) data"
    by (simp add: convert_time_claim_def dict_get_def update_conv')
  have 2: "map_of (AList.update ''exp'' (PInt (timegm e)) data) ''iat'' = None"
    using assms by (simp add: update_conv')
  have 3: "map_of (AList.update ''exp'' (PInt (timegm e)) data) ''nbf'' = None"
    using assms by (simp add: update_conv')
  show ?thesis
    unfolding issued_claims_def 1 by (simp add: convert_time_claim_absent 2 3)
qed

lemma list_all_update:
  assumes "distinct (map fst d)" and "\<forall>kv\<in>set d. fst kv = k \<or> Q (snd kv)" and "Q v"
  shows "\<forall>kv\<in>set (AList.update k v d). Q (snd kv)"
  using assms
proof (induction d)
  case Nil
  then show ?case by simp
next
  case (Cons p d)
  show ?case
  proof (cases "fst p = k")
    case True
    have "Q (snd kv)" if "kv \<in> set d" for kv
    proof -
      from that have "fst kv \<in> fst ` set d" by (rule imageI)
      moreover from Cons.prems(1) True have "k \<notin> fst ` set d" by simp
      ultimately have "fst kv \<noteq> k" by blast
      moreover from Cons.prems(2) that have "fst kv = k \<or> Q (snd kv)" by simp
      ultimately show ?thesis by blast
    qed
    with True Cons.prems(3) show ?thesis by simp
  next
    case False
    from Cons.prems have "distinct (map fst d)" and "\<forall>kv\<in>set d. fst kv = k \<or> Q (snd kv)"
      by simp_all
    from Cons.IH[OF this Cons.prems(3)] have "\<forall>kv\<in>set (AList.update k v d). Q (snd kv)" .
    moreover from False Cons.prems(2) have "Q (snd p)" by simp
    ultimately show ?thesis using False by simp
  qed
qed

subsection \<open>Time\<close>

text \<open>
  The expiry: \<open>now + expires_delta\<close> for an \<open>expires_delta\<close> that is given and not zero,
  \<open>now\<close> plus the configured minutes otherwise.
\<close>

lemma expiry_Some:
  "expiry s now (Some d) = (if d = 0 then expiry s now None else datetime_add now d)"
  by (simp add: expiry_def)

lemma expiry_None:
  "expiry s now None =
     (case timedelta_minutes (access_token_expire_minutes s) of
        Inl e \<Rightarrow> Inl e
      | Inr d \<Rightarrow> datetime_add now d)"
  by (simp add: expiry_def)

lemma expiry_given:
  assumes "d \<noteq> 0" and "datetime_min \<le> now + d" and "now + d \<le> datetime_max"
  shows "expiry s now (Some d) = Inr (now + d)"
  using assms by (simp add: expiry_def datetime_add_def)

lemma timegm_le: "timegm t * 1000000 \<le> t"
  unfolding timegm_def by (simp add: mult.commute)

lemma timegm_gt: "t - 1000000 < timegm t * 1000000"
proof -
  have "t = t div 1000000 * 1000000 + t mod 1000000" by simp
  moreover have "t mod 1000000 < 1000000" by simp
  ultimately show ?thesis unfolding timegm_def by linarith
qed

text \<open>
  With a lifetime of at least one second the token has not expired at the instant of
  issuance, whatever the microseconds that \<open>timegm\<close> drops.
\<close>

lemma round_trip_immediately:
  assumes "1000000 \<le> d"
  shows "now < timegm (now + d) * 1000000"
  using timegm_gt[of "now + d"] assms by linarith

subsection \<open>Encoding and decoding with the module on the functions of auth.py\<close>

lemma verify_access_token_decoded:
  "jwt_decode J now tok (secret_key s) [algorithm s] [''exp'', ''sub''] = Inr payload \<Longrightarrow>
   verify_access_token J s now tok = Inr (dict_get payload ''sub'')"
  by (simp add: verify_access_token_def)

lemma verify_access_token_PyJWT:
  "verify_access_token (PyJWT P) s now tok =
     (case pyjwt_decode P now tok (secret_key s) [algorithm s] [''exp'', ''sub''] of
        Inl (InvalidTokenError e) \<Rightarrow> Inr PNone
      | Inl e \<Rightarrow> Inl e
      | Inr payload \<Rightarrow> Inr (dict_get payload ''sub''))"
  by (simp add: verify_access_token_def PyJWT_def)

lemma is_token_error_iff: "is_token_error e \<longleftrightarrow> (\<exists>t. e = InvalidTokenError t)"
  by (cases e) simp_all

lemma verify_access_token_caught:
  assumes "pyjwt_decode P now tok (secret_key s) [algorithm s] [''exp'', ''sub''] = Inl e"
    and "is_token_error e"
  shows "verify_access_token (PyJWT P) s now tok = Inr PNone"
  using assms by (cases e) (simp_all add: verify_access_token_PyJWT)

lemma get_algorithm_hmac:
  "hmac_algorithm a \<Longrightarrow> \<exists>h B. get_algorithm_by_name a = Some (HMACAlgorithm h B)"
  by (auto simp: hmac_algorithm_def get_algorithm_by_name_def)

lemma get_algorithm_nonempty: "get_algorithm_by_name a = Some obj \<Longrightarrow> a \<noteq> []"
  by (auto simp: get_algorithm_by_name_def split: if_splits)

lemma create_access_token_PyJWT:
  assumes "create_access_token (PyJWT P) s now data d = Inr tok"
  shows "\<exists>e obj kb. expiry s now d = Inr e \<and>
           get_algorithm_by_name (algorithm s) = Some obj \<and>
           prepare_key P obj (secret_key s) = Inr kb \<and>
           tok = Compact (jose_header (algorithm s)) (PDict (issued_claims e data))
                   (sign P obj (signing_input P (jose_header (algorithm s))
                      (PDict (issued_claims e data))) kb)"
  using assms
  by (auto simp: create_access_token_def PyJWT_def pyjwt_encode_def issued_claims_def Let_def
      split: sum.splits if_splits option.splits)

lemma pyjwt_encode_plain:
  assumes "usable_settings P s" and "is_dict data" and "serialisable_claims data"
    and "plain_claims data"
  shows "\<exists>h B. get_algorithm_by_name (algorithm s) = Some (HMACAlgorithm h B) \<and>
     pyjwt_encode P (AList.update ''exp'' (PDatetime e) data) (secret_key s) (algorithm s) =
       Inr (Compact (jose_header (algorithm s)) (PDict (issued_claims e data))
              (sign P (HMACAlgorithm h B)
                 (signing_input P (jose_header (algorithm s)) (PDict (issued_claims e data)))
                 (force_bytes (secret_key s))))"
proof -
  from assms(1) obtain h B where alg: "get_algorithm_by_name (algorithm s) = Some (HMACAlgorithm h B)"
    using get_algorithm_hmac[of "algorithm s"] unfolding usable_settings_def by blast
  from assms(1) have key: "\<not> is_asymmetric_key P (force_bytes (secret_key s))"
    by (simp add: usable_settings_def)
  from assms(4) have abs: "map_of data ''iat'' = None" "map_of data ''nbf'' = None"
    "map_of data ''iss'' = None"
    by (simp_all add: plain_claims_def)
  have p: "issued_claims e data = AList.update ''exp'' (PInt (timegm e)) data"
    using abs(1,2) by (rule issued_claims_plain)
  have iss: "map_of (issued_claims e data) ''iss'' = None"
    using abs(3) by (simp add: map_of_issued_claims_other)
  from assms(3) have "\<forall>kv\<in>set data. fst kv = ''exp'' \<or> json_serialisable (snd kv)"
    by (simp add: serialisable_claims_def list_all_iff)
  with assms(2) have "\<forall>kv\<in>set (AList.update ''exp'' (PInt (timegm e)) data). json_serialisable (snd kv)"
    unfolding is_dict_def by (rule list_all_update) simp
  then have ser: "json_serialisable (PDict (issued_claims e data))"
    by (simp add: p list_all_iff)
  have "pyjwt_encode P (AList.update ''exp'' (PDatetime e) data) (secret_key s) (algorithm s) =
       Inr (Compact (jose_header (algorithm s)) (PDict (issued_claims e data))
              (sign P (HMACAlgorithm h B)
                 (signing_input P (jose_header (algorithm s)) (PDict (issued_claims e data)))
                 (force_bytes (secret_key s))))"
    using alg key iss ser
    unfolding pyjwt_encode_def Let_def issued_claims_def[symmetric] by simp
  with alg show ?thesis by blast
qed

lemma decode_issued_hmac:
  assumes "get_algorithm_by_name a = Some (HMACAlgorithm h B)"
    and "prepare_key P (HMACAlgorithm h B) key = Inr kb"
  shows "pyjwt_decode P now
           (Compact (jose_header a) (PDict p)
              (sign P (HMACAlgorithm h B) (signing_input P (jose_header a) (PDict p)) kb))
           key [a] req =
         (case validate_claims P now p req of Some e \<Rightarrow> Inl e | None \<Rightarrow> Inr p)"
proof -
  have "a \<noteq> []" using assms(1) by (rule get_algorithm_nonempty)
  with assms show ?thesis
    by (simp add: pyjwt_decode_def verify_signature_def jose_header_def split: if_splits)
qed

lemma decode_issued_none:
  assumes "get_algorithm_by_name a = Some NoneAlgorithm"
    and "prepare_key P NoneAlgorithm key = Inr kb"
  shows "pyjwt_decode P now (Compact (jose_header a) (PDict p) sg) key [a] req =
         Inl (InvalidTokenError InvalidSignatureError)"
proof -
  have "a \<noteq> []" using assms(1) by (rule get_algorithm_nonempty)
  with assms show ?thesis
    by (simp add: pyjwt_decode_def verify_signature_def jose_header_def split: if_splits)
qed

lemma pyjwt_decode_Inr:
  assumes "pyjwt_decode P now tok key algs req = Inr cs"
  shows "token_claims tok = cs \<and> validate_claims P now cs req = None"
proof (cases tok)
  case (Malformed x)
  with assms show ?thesis by (simp add: pyjwt_decode_def split: if_splits)
next
  case (Compact hdr payload sg)
  with assms show ?thesis
    by (cases payload)
      (auto simp: pyjwt_decode_def split: if_splits option.splits)
qed

subsection \<open>The claim checks\<close>

lemma first_error_Some:
  "first_error cs = Some e \<Longrightarrow> Some e \<in> set cs"
  by (induction cs rule: first_error.induct) auto

lemma first_error_None:
  "first_error cs = None \<Longrightarrow> c \<in> set cs \<Longrightarrow> c = None"
  by (induction cs rule: first_error.induct) auto

lemma validate_required_missing_sub:
  assumes "map_of p ''exp'' = Some (PInt n)" and "map_of p ''sub'' = None"
  shows "validate_claims P now p [''exp'', ''sub'']
         = Some (InvalidTokenError (MissingRequiredClaimError ''sub''))"
  using assms by (simp add: validate_claims_def validate_required_claims_def dict_get_def)

lemma validate_required_missing:
  assumes "dict_get cs ''sub'' = PNone \<or> dict_get cs ''exp'' = PNone"
  shows "\<exists>c. validate_claims P now cs [''exp'', ''sub'']
              = Some (InvalidTokenError (MissingRequiredClaimError c))"
  using assms by (auto simp: validate_claims_def validate_required_claims_def)

lemma validate_required_None:
  assumes "validate_required_claims cs req = None" and "c \<in> set req"
  shows "\<exists>v. map_of cs c = Some v \<and> v \<noteq> PNone"
proof -
  from assms(1) have "filter (\<lambda>c. dict_get cs c = PNone) req = []"
    by (simp add: validate_required_claims_def split: list.splits)
  with assms(2) have "dict_get cs c \<noteq> PNone"
    by (auto simp: filter_empty_conv)
  then show ?thesis by (auto simp: dict_get_def split: option.splits)
qed

lemma validate_exp_None:
  assumes "validate_exp P now cs = None" and "map_of cs ''exp'' = Some e"
  shows "\<exists>n. py_int P e = Inr n \<and> now < n * 1000000"
proof (cases "py_int P e")
  case (Inl x)
  with assms show ?thesis by (cases x) (simp_all add: validate_exp_def)
next
  case (Inr n)
  with assms show ?thesis by (simp add: validate_exp_def split: if_splits)
qed

lemma validate_claims_None:
  assumes "validate_claims P now cs req = None"
  shows "validate_required_claims cs req = None \<and> validate_exp P now cs = None"
proof -
  have "validate_required_claims cs req = None"
    by (rule first_error_None[OF assms[unfolded validate_claims_def]]) simp
  moreover have "validate_exp P now cs = None"
    by (rule first_error_None[OF assms[unfolded validate_claims_def]]) simp
  ultimately show ?thesis ..
qed

lemma validate_claims_plain:
  assumes "map_of p ''sub'' = Some (PStr sub)" and "map_of p ''exp'' = Some (PInt n)"
    and "now < n * 1000000"
    and "map_of p ''iat'' = None" and "map_of p ''nbf'' = None"
    and "map_of p ''aud'' = None" and "map_of p ''jti'' = None"
  shows "validate_claims P now p [''exp'', ''sub''] = None"
  using assms
  by (simp add: validate_claims_def validate_required_claims_def dict_get_def validate_iat_def
      validate_nbf_def validate_exp_def validate_aud_def validate_sub_def validate_jti_def)

subsection \<open>Which exceptions decoding raises\<close>

lemma verify_signature_token_error:
  assumes "key_accepted P s"
    and "verify_signature P hdr payload sg (secret_key s) [algorithm s] = Some e"
  shows "is_token_error e"
proof (cases "map_of hdr ''alg''")
  case None
  with assms(2) show ?thesis by (auto simp: verify_signature_def)
next
  case (Some v)
  show ?thesis
  proof (cases v)
    case (PStr name)
    show ?thesis
    proof (cases "name = [] \<or> name \<noteq> algorithm s")
      case True
      with assms(2) Some PStr show ?thesis by (auto simp: verify_signature_def)
    next
      case False
      then have n: "name = algorithm s" "name \<noteq> []" by auto
      show ?thesis
      proof (cases "get_algorithm_by_name (algorithm s)")
        case None
        with assms(2) \<open>map_of hdr ''alg'' = Some v\<close> PStr n show ?thesis
          by (auto simp: verify_signature_def)
      next
        case (Some obj)
        with assms(1) obtain kb where "prepare_key P obj (secret_key s) = Inr kb"
          by (auto simp: key_accepted_def split: sum.splits)
        with assms(2) \<open>map_of hdr ''alg'' = Some v\<close> PStr n Some show ?thesis
          by (auto simp: verify_signature_def split: if_splits)
      qed
    qed
  qed (use assms(2) Some in \<open>auto simp: verify_signature_def\<close>)
qed

lemma py_int_convertible:
  "int_convertible v \<Longrightarrow> py_int P v = Inl e \<Longrightarrow> e = ValueError"
  by (cases v) (auto split: option.splits)

lemma validate_iat_token_error:
  assumes "case map_of cs ''iat'' of None \<Rightarrow> True | Some v \<Rightarrow> int_convertible v"
    and "validate_iat P now cs = Some e"
  shows "is_token_error e"
proof (cases "map_of cs ''iat''")
  case None
  with assms(2) show ?thesis by (auto simp: validate_iat_def)
next
  case (Some v)
  with assms(1) have c: "int_convertible v" by simp
  show ?thesis
  proof (cases "py_int P v")
    case (Inl x)
    with c have "x = ValueError" by (rule py_int_convertible)
    with assms(2) Some Inl show ?thesis by (auto simp: validate_iat_def)
  next
    case (Inr n)
    with assms(2) Some show ?thesis by (auto simp: validate_iat_def split: if_splits)
  qed
qed

lemma validate_nbf_token_error:
  assumes "case map_of cs ''nbf'' of None \<Rightarrow> True | Some v \<Rightarrow> int_convertible v"
    and "validate_nbf P now cs = Some e"
  shows "is_token_error e"
proof (cases "map_of cs ''nbf''")
  case None
  with assms(2) show ?thesis by (auto simp: validate_nbf_def)
next
  case (Some v)
  with assms(1) have c: "int_convertible v" by simp
  show ?thesis
  proof (cases "py_int P v")
    case (Inl x)
    with c have "x = ValueError" by (rule py_int_convertible)
    with assms(2) Some Inl show ?thesis by (auto simp: validate_nbf_def)
  next
    case (Inr n)
    with assms(2) Some show ?thesis by (auto simp: validate_nbf_def split: if_splits)
  qed
qed

lemma validate_exp_token_error:
  assumes "case map_of cs ''exp'' of None \<Rightarrow> True | Some v \<Rightarrow> int_convertible v"
    and "validate_exp P now cs = Some e"
  shows "is_token_error e"
proof (cases "map_of cs ''exp''")
  case None
  with assms(2) show ?thesis by (auto simp: validate_exp_def)
next
  case (Some v)
  with assms(1) have c: "int_convertible v" by simp
  show ?thesis
  proof (cases "py_int P v")
    case (Inl x)
    with c have "x = ValueError" by (rule py_int_convertible)
    with assms(2) Some Inl show ?thesis by (auto simp: validate_exp_def)
  next
    case (Inr n)
    with assms(2) Some show ?thesis by (auto simp: validate_exp_def split: if_splits)
  qed
qed

lemma validate_required_token_error:
  "validate_required_claims cs req = Some e \<Longrightarrow> is_token_error e"
  by (auto simp: validate_required_claims_def split: list.splits)

lemma validate_aud_token_error: "validate_aud cs = Some e \<Longrightarrow> is_token_error e"
  by (auto simp: validate_aud_def split: option.splits if_splits)

lemma validate_sub_token_error: "validate_sub P cs = Some e \<Longrightarrow> is_token_error e"
  by (auto simp: validate_sub_def split: option.splits if_splits)

lemma validate_jti_token_error: "validate_jti P cs = Some e \<Longrightarrow> is_token_error e"
  by (auto simp: validate_jti_def split: option.splits if_splits)

lemma validate_claims_token_error:
  assumes "time_claims_convertible (Compact hdr (PDict cs) sg)"
    and "validate_claims P now cs req = Some e"
  shows "is_token_error e"
proof -
  from assms(1) have c:
    "case map_of cs ''iat'' of None \<Rightarrow> True | Some v \<Rightarrow> int_convertible v"
    "case map_of cs ''nbf'' of None \<Rightarrow> True | Some v \<Rightarrow> int_convertible v"
    "case map_of cs ''exp'' of None \<Rightarrow> True | Some v \<Rightarrow> int_convertible v"
    by (simp_all add: time_claims_convertible_def)
  from assms(2) have "Some e \<in> set [validate_required_claims cs req, validate_iat P now cs,
        validate_nbf P now cs, validate_exp P now cs, validate_aud cs, validate_sub P cs,
        validate_jti P cs]"
    unfolding validate_claims_def by (rule first_error_Some)
  then consider "validate_required_claims cs req = Some e" | "validate_iat P now cs = Some e"
    | "validate_nbf P now cs = Some e" | "validate_exp P now cs = Some e"
    | "validate_aud cs = Some e" | "validate_sub P cs = Some e" | "validate_jti P cs = Some e"
    by auto
  then show ?thesis
  proof cases
    case 1 then show ?thesis by (rule validate_required_token_error)
  next
    case 2 with c(1) show ?thesis by (rule validate_iat_token_error)
  next
    case 3 with c(2) show ?thesis by (rule validate_nbf_token_error)
  next
    case 4 with c(3) show ?thesis by (rule validate_exp_token_error)
  next
    case 5 then show ?thesis by (rule validate_aud_token_error)
  next
    case 6 then show ?thesis by (rule validate_sub_token_error)
  next
    case 7 then show ?thesis by (rule validate_jti_token_error)
  qed
qed

lemma pyjwt_decode_token_error:
  assumes "key_accepted P s" and "jws_verified P s tok \<longrightarrow> time_claims_convertible tok"
    and "pyjwt_decode P now tok (secret_key s) [algorithm s] req = Inl e"
  shows "is_token_error e"
proof (cases tok)
  case (Malformed x)
  with assms(3) show ?thesis by (auto simp: pyjwt_decode_def)
next
  case (Compact hdr payload sg)
  show ?thesis
  proof (cases "map_of hdr ''b64'' = Some (PBool False)")
    case True
    with assms(3) Compact show ?thesis by (auto simp: pyjwt_decode_def)
  next
    case False
    show ?thesis
    proof (cases "verify_signature P hdr payload sg (secret_key s) [algorithm s]")
      case (Some x)
      with assms(1) have "is_token_error x" by (rule verify_signature_token_error)
      moreover from assms(3) Compact False Some have "e = x" by (auto simp: pyjwt_decode_def)
      ultimately show ?thesis by simp
    next
      case None
      with False Compact have "jws_verified P s tok" by simp
      with assms(2) have conv: "time_claims_convertible tok" by simp
      show ?thesis
      proof (cases payload)
        case (PDict cs)
        show ?thesis
        proof (cases "validate_claims P now cs req")
          case None
          with assms(3) Compact False \<open>verify_signature P hdr payload sg (secret_key s) [algorithm s] = None\<close> PDict
          show ?thesis by (auto simp: pyjwt_decode_def)
        next
          case (Some x)
          from conv Compact PDict have "time_claims_convertible (Compact hdr (PDict cs) sg)"
            by simp
          then have "is_token_error x" using Some by (rule validate_claims_token_error)
          moreover from assms(3) Compact False \<open>verify_signature P hdr payload sg (secret_key s) [algorithm s] = None\<close> PDict Some
          have "e = x" by (auto simp: pyjwt_decode_def)
          ultimately show ?thesis by simp
        qed
      qed (use assms(3) Compact False None in \<open>auto simp: pyjwt_decode_def\<close>)
    qed
  qed
qed

text \<open>
  The failure modes by name: malformed encoding, an algorithm other than the configured
  one, a signature that does not verify, a missing required claim, an expired token.
\<close>

lemma decode_malformed:
  "pyjwt_decode P now (Malformed x) key algs req = Inl (InvalidTokenError DecodeError)"
  by (simp add: pyjwt_decode_def)

lemma decode_other_algorithm:
  assumes "map_of hdr ''alg'' = Some (PStr a)" and "a \<noteq> algorithm s"
  shows "pyjwt_decode P now (Compact hdr payload sg) (secret_key s) [algorithm s] req
         = Inl (InvalidTokenError (if map_of hdr ''b64'' = Some (PBool False)
                                   then DecodeError else InvalidAlgorithmError))"
  using assms by (simp add: pyjwt_decode_def verify_signature_def)

lemma decode_invalid_signature:
  assumes "usable_settings P s" and "map_of hdr ''alg'' = Some (PStr (algorithm s))"
    and "map_of hdr ''b64'' \<noteq> Some (PBool False)"
    and "sg \<noteq> tag P s (Compact hdr payload sg)"
  shows "pyjwt_decode P now (Compact hdr payload sg) (secret_key s) [algorithm s] req
         = Inl (InvalidTokenError InvalidSignatureError)"
proof -
  from assms(1) obtain h B where alg: "get_algorithm_by_name (algorithm s) = Some (HMACAlgorithm h B)"
    using get_algorithm_hmac[of "algorithm s"] unfolding usable_settings_def by blast
  then have ne: "algorithm s \<noteq> []" by (rule get_algorithm_nonempty)
  from assms(1) have key: "\<not> is_asymmetric_key P (force_bytes (secret_key s))"
    by (simp add: usable_settings_def)
  from assms(4) alg have "sg \<noteq> hmac (digest P h) B (force_bytes (secret_key s))
                                  (signing_input P hdr payload)"
    by simp
  with assms(2,3) alg ne key show ?thesis
    by (simp add: pyjwt_decode_def verify_signature_def)
qed

lemma decode_missing_claim:
  assumes "jws_verified P s (Compact hdr (PDict cs) sg)"
    and "dict_get cs ''sub'' = PNone \<or> dict_get cs ''exp'' = PNone"
  shows "\<exists>c. pyjwt_decode P now (Compact hdr (PDict cs) sg) (secret_key s) [algorithm s]
               [''exp'', ''sub''] = Inl (InvalidTokenError (MissingRequiredClaimError c))"
proof -
  from validate_required_missing[OF assms(2), of P now] obtain c where
    "validate_claims P now cs [''exp'', ''sub'']
       = Some (InvalidTokenError (MissingRequiredClaimError c))" ..
  with assms(1) show ?thesis by (simp add: pyjwt_decode_def)
qed

lemma decode_expired:
  assumes "jws_verified P s (Compact hdr (PDict cs) sg)"
    and "map_of cs ''sub'' = Some v" and "v \<noteq> PNone"
    and "map_of cs ''exp'' = Some (PInt n)" and "n * 1000000 \<le> now"
    and "map_of cs ''iat'' = None" and "map_of cs ''nbf'' = None"
  shows "pyjwt_decode P now (Compact hdr (PDict cs) sg) (secret_key s) [algorithm s]
           [''exp'', ''sub''] = Inl (InvalidTokenError ExpiredSignatureError)"
proof -
  from assms(2-7) have "validate_claims P now cs [''exp'', ''sub'']
       = Some (InvalidTokenError ExpiredSignatureError)"
    by (simp add: validate_claims_def validate_required_claims_def dict_get_def validate_iat_def
        validate_nbf_def validate_exp_def)
  with assms(1) show ?thesis by (simp add: pyjwt_decode_def)
qed

text \<open>
  A key that the configured algorithm refuses is not a failure of the token:
  \<open>InvalidKeyError\<close> leaves \<open>verify_access_token\<close>.
\<close>

lemma verify_access_token_invalid_key:
  assumes "get_algorithm_by_name (algorithm s) = Some obj"
    and "prepare_key P obj (secret_key s) = Inl InvalidKeyError"
    and "map_of hdr ''alg'' = Some (PStr (algorithm s))"
    and "map_of hdr ''b64'' \<noteq> Some (PBool False)"
  shows "verify_access_token (PyJWT P) s now (Compact hdr payload sg) = Inl InvalidKeyError"
proof -
  have "algorithm s \<noteq> []" using assms(1) by (rule get_algorithm_nonempty)
  with assms show ?thesis
    by (simp add: verify_access_token_PyJWT pyjwt_decode_def verify_signature_def)
qed

text \<open>
  Nor is a time claim on which \<open>int\<close> raises \<open>TypeError\<close>: with \<open>"nbf": null\<close> in a payload
  whose signature verifies, the exception leaves \<open>verify_access_token\<close>.
\<close>

lemma verify_access_token_type_error:
  assumes "jws_verified P s (Compact hdr (PDict cs) sg)"
    and "map_of cs ''sub'' = Some v" and "v \<noteq> PNone"
    and "map_of cs ''exp'' = Some e" and "e \<noteq> PNone"
    and "map_of cs ''iat'' = None" and "map_of cs ''nbf'' = Some PNone"
  shows "verify_access_token (PyJWT P) s now (Compact hdr (PDict cs) sg) = Inl TypeError"
proof -
  from assms(2-7) have "validate_claims P now cs [''exp'', ''sub''] = Some TypeError"
    by (simp add: validate_claims_def validate_required_claims_def dict_get_def validate_iat_def
        validate_nbf_def)
  with assms(1) show ?thesis
    by (simp add: verify_access_token_PyJWT pyjwt_decode_def)
qed

subsection \<open>HMAC keys\<close>

text \<open>
  HMAC pads a short key with zero bytes, so a key and the same key followed by a zero
  byte give every message the same tag, whatever the hash function.
\<close>

lemma hmac_zero_padded_key:
  assumes "length k < B"
  shows "hmac H B (k @ [0]) msg = hmac H B k msg"
proof -
  from assms obtain m where m: "B - length k = Suc m"
    by (cases "B - length k") simp_all
  then have "B - length (k @ [0::byte]) = m" by simp
  with m have pad: "(k @ [0]) @ replicate (B - length (k @ [0])) (0::byte)
                    = k @ replicate (B - length k) 0"
    by simp
  from assms have c: "\<not> B < length (k @ [0::byte])" "\<not> B < length k" by simp_all
  show ?thesis
    unfolding hmac_def Let_def by (simp only: c if_False pad)
qed

lemma force_bytes_append_nul: "force_bytes (k @ [CHR 0x00]) = force_bytes k @ [0]"
  by (simp add: force_bytes_def)

lemma tag_zero_padded_key:
  assumes "algorithm s = ''HS256''" and "length (secret_key s) < 64"
  shows "tag P (s\<lparr>secret_key := secret_key s @ [CHR 0x00]\<rparr>) tok = tag P s tok"
proof (cases tok)
  case (Malformed x)
  then show ?thesis by simp
next
  case (Compact hdr payload sg)
  from assms(2) have "length (force_bytes (secret_key s)) < 64" by (simp add: force_bytes_def)
  then show ?thesis using assms(1) Compact
    by (simp add: get_algorithm_by_name_def force_bytes_append_nul hmac_zero_padded_key)
qed

subsection \<open>Issuing with an audience, with a negative lifetime, on a process\<close>

text \<open>
  A token issued from a dictionary with a non-empty \<open>aud\<close> claim is never accepted:
  \<open>verify_access_token\<close> passes no audience to \<open>jwt.decode\<close>.
\<close>

lemma audience_claim_rejected:
  assumes "map_of data ''aud'' = Some v" and "py_truthy v"
    and "create_access_token (PyJWT P) s now data d = Inr tok"
    and "verify_access_token (PyJWT P) s' now' tok = Inr w"
  shows "w = PNone"
proof (cases "pyjwt_decode P now' tok (secret_key s') [algorithm s'] [''exp'', ''sub'']")
  case (Inl e)
  with assms(4) show ?thesis by (cases e) (auto simp: verify_access_token_PyJWT)
next
  case (Inr cs)
  from pyjwt_decode_Inr[OF this] have tc: "token_claims tok = cs"
    and val: "validate_claims P now' cs [''exp'', ''sub''] = None" by simp_all
  from create_access_token_PyJWT[OF assms(3)] tc obtain e where "cs = issued_claims e data"
    by auto
  with assms(1) have "map_of cs ''aud'' = Some v" by (simp add: map_of_issued_claims_other)
  with assms(2) have "validate_aud cs \<noteq> None" by (simp add: validate_aud_def)
  moreover have "validate_aud cs = None"
    by (rule first_error_None[OF val[unfolded validate_claims_def]]) simp
  ultimately show ?thesis by simp
qed

text \<open>
  A negative \<open>expires_delta\<close> is true as a condition, so the expiry is \<open>now + expires_delta\<close>,
  in the past, and the token is rejected from the instant of issuance on.
\<close>

lemma negative_delta_expired:
  assumes "usable_settings P s"
    and "is_dict data" and "serialisable_claims data" and "plain_claims data"
    and "d < 0" and "datetime_min \<le> now + d" and "now + d \<le> datetime_max"
    and "now \<le> now'"
  shows "issue_then_verify (PyJWT P) s now data (Some d) s now' = Inr (Inr PNone)"
proof -
  let ?e = "now + d"
  let ?p = "issued_claims ?e data"
  from assms(5) have "d \<noteq> 0" by simp
  then have e: "expiry s now (Some d) = Inr ?e"
    using assms(6,7) by (rule expiry_given)
  from pyjwt_encode_plain[OF assms(1-4), of ?e] obtain h B where
    alg: "get_algorithm_by_name (algorithm s) = Some (HMACAlgorithm h B)" and
    enc: "pyjwt_encode P (AList.update ''exp'' (PDatetime ?e) data) (secret_key s) (algorithm s) =
       Inr (Compact (jose_header (algorithm s)) (PDict ?p)
              (sign P (HMACAlgorithm h B)
                 (signing_input P (jose_header (algorithm s)) (PDict ?p))
                 (force_bytes (secret_key s))))"
    by blast
  from assms(1) have key: "prepare_key P (HMACAlgorithm h B) (secret_key s) = Inr (force_bytes (secret_key s))"
    by (simp add: usable_settings_def)
  from assms(4) have abs: "map_of data ''iat'' = None" "map_of data ''nbf'' = None"
    by (simp_all add: plain_claims_def)
  have p: "?p = AList.update ''exp'' (PInt (timegm ?e)) data"
    using abs by (rule issued_claims_plain)
  have iat: "map_of ?p ''iat'' = None" using abs(1) by (simp add: p update_conv')
  have nbf: "map_of ?p ''nbf'' = None" using abs(2) by (simp add: p update_conv')
  have "timegm ?e * 1000000 \<le> now'"
    using timegm_le[of ?e] assms(5,8) by linarith
  then have "\<exists>t. validate_claims P now' ?p [''exp'', ''sub''] = Some (InvalidTokenError t)"
    using iat nbf map_of_issued_claims_exp[of ?e data]
    by (simp add: validate_claims_def validate_required_claims_def dict_get_def validate_iat_def
        validate_nbf_def validate_exp_def)
  then obtain t where "validate_claims P now' ?p [''exp'', ''sub''] = Some (InvalidTokenError t)" ..
  then have "verify_access_token (PyJWT P) s now'
          (Compact (jose_header (algorithm s)) (PDict ?p)
              (sign P (HMACAlgorithm h B)
                 (signing_input P (jose_header (algorithm s)) (PDict ?p))
                 (force_bytes (secret_key s)))) = Inr PNone"
    unfolding verify_access_token_PyJWT decode_issued_hmac[OF alg key] by simp
  moreover have "create_access_token (PyJWT P) s now data (Some d) =
       Inr (Compact (jose_header (algorithm s)) (PDict ?p)
              (sign P (HMACAlgorithm h B)
                 (signing_input P (jose_header (algorithm s)) (PDict ?p))
                 (force_bytes (secret_key s))))"
    unfolding create_access_token_def e using enc by (simp add: PyJWT_def)
  ultimately show ?thesis
    unfolding issue_then_verify_def by simp
qed

text \<open>
  On a live reference the process-level function returns what the function on values
  returns.
\<close>

lemma create_access_token_proc_result:
  "data < length (heap st) \<Longrightarrow>
   fst (create_access_token_proc J st data expires_delta) =
   create_access_token J (config st) (clock st) (heap st ! data) expires_delta"
  by (simp add: create_access_token_proc_def create_access_token_def Let_def
      split: sum.splits)

section \<open>The claims\<close>

text \<open>
  Claim C1 (round trip), as amended. Let the settings name an HMAC algorithm and a key
  that it accepts; let the claims dictionary hold a string under \<open>sub\<close>, none of the claims
  \<open>aud\<close>, \<open>iat\<close>, \<open>nbf\<close>, \<open>iss\<close>, \<open>jti\<close>, and only values that \<open>json.dumps\<close> serialises (the
  value under \<open>exp\<close> is overwritten and may be anything); let \<open>expires_delta\<close> be positive with
  \<open>now + expires_delta\<close> a \<open>datetime\<close>. Then \<open>create_access_token\<close> returns a token, and
  \<open>verify_access_token\<close> on it, under the same settings at any instant before the \<open>exp\<close>
  claim (the expiry in whole seconds), returns that subject.
\<close>

theorem issue_then_verify_round_trip:
  assumes "usable_settings P s"
    and "is_dict data" and "serialisable_claims data" and "plain_claims data"
    and "map_of data ''sub'' = Some (PStr sub)"
    and "0 < d" and "datetime_min \<le> now + d" and "now + d \<le> datetime_max"
    and "now' < timegm (now + d) * 1000000"
  shows "issue_then_verify (PyJWT P) s now data (Some d) s now' = Inr (Inr (PStr sub))"
proof -
  let ?e = "now + d"
  let ?p = "issued_claims ?e data"
  from assms(6) have "d \<noteq> 0" by simp
  then have e: "expiry s now (Some d) = Inr ?e"
    using assms(7,8) by (rule expiry_given)
  from pyjwt_encode_plain[OF assms(1-4), of ?e] obtain h B where
    alg: "get_algorithm_by_name (algorithm s) = Some (HMACAlgorithm h B)" and
    enc: "pyjwt_encode P (AList.update ''exp'' (PDatetime ?e) data) (secret_key s) (algorithm s) =
       Inr (Compact (jose_header (algorithm s)) (PDict ?p)
              (sign P (HMACAlgorithm h B)
                 (signing_input P (jose_header (algorithm s)) (PDict ?p))
                 (force_bytes (secret_key s))))"
    by blast
  from assms(1) have key: "prepare_key P (HMACAlgorithm h B) (secret_key s) = Inr (force_bytes (secret_key s))"
    by (simp add: usable_settings_def)
  from assms(4) have abs: "map_of data ''iat'' = None" "map_of data ''nbf'' = None"
    "map_of data ''aud'' = None" "map_of data ''jti'' = None"
    by (simp_all add: plain_claims_def)
  have p: "?p = AList.update ''exp'' (PInt (timegm ?e)) data"
    using abs(1,2) by (rule issued_claims_plain)
  have sub: "map_of ?p ''sub'' = Some (PStr sub)"
    using assms(5) by (simp add: map_of_issued_claims_other)
  have v: "validate_claims P now' ?p [''exp'', ''sub''] = None"
    using sub map_of_issued_claims_exp assms(9)
  proof (rule validate_claims_plain)
    show "map_of ?p ''iat'' = None" using abs(1) by (simp add: p update_conv')
    show "map_of ?p ''nbf'' = None" using abs(2) by (simp add: p update_conv')
    show "map_of ?p ''aud'' = None" using abs(3) by (simp add: p update_conv')
    show "map_of ?p ''jti'' = None" using abs(4) by (simp add: p update_conv')
  qed
  have "verify_access_token (PyJWT P) s now'
          (Compact (jose_header (algorithm s)) (PDict ?p)
              (sign P (HMACAlgorithm h B)
                 (signing_input P (jose_header (algorithm s)) (PDict ?p))
                 (force_bytes (secret_key s)))) = Inr (PStr sub)"
    unfolding verify_access_token_PyJWT decode_issued_hmac[OF alg key] v
    using sub by (simp add: dict_get_def)
  moreover have "create_access_token (PyJWT P) s now data (Some d) =
       Inr (Compact (jose_header (algorithm s)) (PDict ?p)
              (sign P (HMACAlgorithm h B)
                 (signing_input P (jose_header (algorithm s)) (PDict ?p))
                 (force_bytes (secret_key s))))"
    unfolding create_access_token_def e using enc by (simp add: PyJWT_def)
  ultimately show ?thesis
    unfolding issue_then_verify_def by simp
qed

theorem issue_then_verify_round_trip_witness:
  "usable_settings test_platform default_settings \<and>
   is_dict [(''sub'', PStr ''42'')] \<and>
   serialisable_claims [(''sub'', PStr ''42'')] \<and>
   plain_claims [(''sub'', PStr ''42'')] \<and>
   map_of [(''sub'', PStr ''42'')] ''sub'' = Some (PStr ''42'') \<and>
   0 < minutes 30 \<and>
   datetime_min \<le> t0 + minutes 30 \<and> t0 + minutes 30 \<le> datetime_max \<and>
   t0 < timegm (t0 + minutes 30) * 1000000 \<and>
   issue_then_verify (PyJWT test_platform) default_settings t0 [(''sub'', PStr ''42'')]
     (Some (minutes 30)) default_settings t0 = Inr (Inr (PStr ''42''))"
proof -
  have h1: "usable_settings test_platform default_settings" by code_simp
  have h2: "is_dict [(''sub'', PStr ''42'')]" by (simp add: is_dict_def)
  have h3: "serialisable_claims [(''sub'', PStr ''42'')]" by (simp add: serialisable_claims_def)
  have h4: "plain_claims [(''sub'', PStr ''42'')]" by (simp add: plain_claims_def)
  have h5: "map_of [(''sub'', PStr ''42'')] ''sub'' = Some (PStr ''42'')" by simp
  have h6: "0 < minutes 30" by (simp add: minutes_def)
  have h7: "datetime_min \<le> t0 + minutes 30"
    by (simp add: datetime_min_def t0_def minutes_def)
  have h8: "t0 + minutes 30 \<le> datetime_max"
    by (simp add: datetime_max_def t0_def minutes_def)
  have h9: "t0 < timegm (t0 + minutes 30) * 1000000"
    by (simp add: timegm_def t0_def minutes_def)
  from issue_then_verify_round_trip[OF h1 h2 h3 h4 h5 h6 h7 h8 h9]
  have "issue_then_verify (PyJWT test_platform) default_settings t0 [(''sub'', PStr ''42'')]
     (Some (minutes 30)) default_settings t0 = Inr (Inr (PStr ''42''))" .
  with h1 h2 h3 h4 h5 h6 h7 h8 h9 show ?thesis by blast
qed

text \<open>
  The claim as stated, for every dictionary with a \<open>sub\<close> and every positive
  \<open>expires_delta\<close>, fails: with an \<open>aud\<close> claim the token is rejected (no audience is given to
  \<open>jwt.decode\<close>); with a value that JSON cannot carry \<open>create_access_token\<close> raises
  \<open>TypeError\<close>; with a lifetime of half a second, issued a quarter of a second into the
  second, the \<open>exp\<close> claim is the second of issuance and the token is rejected at once; and
  PyJWT 2.10 rejects a \<open>sub\<close> that is not a string.
\<close>

theorem round_trip_counterexample:
  "issue_then_verify (PyJWT test_platform) default_settings t0
     [(''sub'', PStr ''42''), (''aud'', PStr ''blog'')] (Some (minutes 30)) default_settings t0
     = Inr (Inr PNone) \<and>
   issue_then_verify (PyJWT test_platform) default_settings t0
     [(''sub'', PStr ''42''), (''tags'', PObject 0)] (Some (minutes 30)) default_settings t0
     = Inl TypeError \<and>
   issue_then_verify (PyJWT test_platform) default_settings t0
     [(''sub'', PStr ''42'')] (Some 500000) default_settings t0
     = Inr (Inr PNone) \<and>
   issue_then_verify (PyJWT test_platform) default_settings t0
     [(''sub'', PInt 42)] (Some (minutes 30)) default_settings t0
     = Inr (Inr PNone)"
  by code_simp

text \<open>
  Claim C2 (expiry computation). The claim says that an \<open>expires_delta\<close> of zero gives
  \<open>exp = now\<close> and a token that is rejected at once. The code tests \<open>if expires_delta:\<close>, and
  \<open>timedelta(0)\<close> is false: with \<open>expires_delta = timedelta(0)\<close> the function does what it does
  with no \<open>expires_delta\<close>, the expiry is thirty minutes ahead under the default settings, and
  the token verifies.
\<close>

theorem create_access_token_zero_delta:
  "create_access_token J s now data (Some 0) = create_access_token J s now data None \<and>
   expiry default_settings t0 (Some 0) = Inr (t0 + minutes 30) \<and>
   issue_then_verify (PyJWT test_platform) default_settings t0 [(''sub'', PStr ''42'')]
     (Some 0) default_settings t0 = Inr (Inr (PStr ''42''))"
proof -
  have "create_access_token J s now data (Some 0) = create_access_token J s now data None"
    by (simp add: create_access_token_def expiry_def)
  moreover have "expiry default_settings t0 (Some 0) = Inr (t0 + minutes 30)"
    by code_simp
  moreover have "issue_then_verify (PyJWT test_platform) default_settings t0 [(''sub'', PStr ''42'')]
     (Some 0) default_settings t0 = Inr (Inr (PStr ''42''))"
    by code_simp
  ultimately show ?thesis by blast
qed

text \<open>
  Claim C3 (totality and failure collapsing), as amended. Let the configured key be one
  that the configured algorithm accepts, and let the \<open>iat\<close>, \<open>nbf\<close> and \<open>exp\<close> claims of the
  token, if its signature verifies under that key, be integers, booleans or strings where
  it has them. Then \<open>verify_access_token\<close> returns a value (a subject or \<open>None\<close>) and does
  not raise, and whenever \<open>jwt.decode\<close> fails, for whatever cause, the result is \<open>None\<close>.
\<close>

theorem verify_access_token_total:
  assumes "key_accepted P s" and "jws_verified P s tok \<longrightarrow> time_claims_convertible tok"
  shows "(\<exists>v. verify_access_token (PyJWT P) s now tok = Inr v) \<and>
         (\<forall>e. pyjwt_decode P now tok (secret_key s) [algorithm s] [''exp'', ''sub''] = Inl e
               \<longrightarrow> verify_access_token (PyJWT P) s now tok = Inr PNone)"
proof -
  have caught: "verify_access_token (PyJWT P) s now tok = Inr PNone"
    if "pyjwt_decode P now tok (secret_key s) [algorithm s] [''exp'', ''sub''] = Inl e" for e
  proof -
    from assms that have "is_token_error e" by (rule pyjwt_decode_token_error)
    with that show ?thesis by (rule verify_access_token_caught)
  qed
  have "\<exists>v. verify_access_token (PyJWT P) s now tok = Inr v"
  proof (cases "pyjwt_decode P now tok (secret_key s) [algorithm s] [''exp'', ''sub'']")
    case (Inl e)
    then show ?thesis using caught by blast
  next
    case (Inr payload)
    then show ?thesis by (simp add: verify_access_token_PyJWT)
  qed
  with caught show ?thesis by blast
qed

text \<open>
  Two tokens under the default settings: a string that is no token, and the token issued
  for \<open>{"sub": "42"}\<close> thirty minutes after it was issued.
\<close>

theorem verify_access_token_total_witness:
  "key_accepted test_platform default_settings \<and>
   \<not> jws_verified test_platform default_settings (Malformed ''garbage'') \<and>
   pyjwt_decode test_platform t0 (Malformed ''garbage'') (secret_key default_settings)
     [algorithm default_settings] [''exp'', ''sub''] = Inl (InvalidTokenError DecodeError) \<and>
   verify_access_token (PyJWT test_platform) default_settings t0 (Malformed ''garbage'')
     = Inr PNone \<and>
   time_claims_convertible (issued_example [(''sub'', PStr ''42'')]) \<and>
   pyjwt_decode test_platform (t0 + minutes 30) (issued_example [(''sub'', PStr ''42'')])
     (secret_key default_settings) [algorithm default_settings] [''exp'', ''sub'']
     = Inl (InvalidTokenError ExpiredSignatureError) \<and>
   verify_access_token (PyJWT test_platform) default_settings (t0 + minutes 30)
     (issued_example [(''sub'', PStr ''42'')]) = Inr PNone"
proof -
  have k: "key_accepted test_platform default_settings" by code_simp
  have g1: "\<not> jws_verified test_platform default_settings (Malformed ''garbage'')" by simp
  have g2: "pyjwt_decode test_platform t0 (Malformed ''garbage'') (secret_key default_settings)
     [algorithm default_settings] [''exp'', ''sub''] = Inl (InvalidTokenError DecodeError)"
    by (simp add: pyjwt_decode_def)
  from g1 have g3: "jws_verified test_platform default_settings (Malformed ''garbage'')
      \<longrightarrow> time_claims_convertible (Malformed ''garbage'')" by simp
  from verify_access_token_total[OF k g3, of t0] g2
  have g: "verify_access_token (PyJWT test_platform) default_settings t0 (Malformed ''garbage'')
     = Inr PNone" by blast
  have e1: "time_claims_convertible (issued_example [(''sub'', PStr ''42'')])" by code_simp
  have e2: "pyjwt_decode test_platform (t0 + minutes 30) (issued_example [(''sub'', PStr ''42'')])
     (secret_key default_settings) [algorithm default_settings] [''exp'', ''sub'']
     = Inl (InvalidTokenError ExpiredSignatureError)" by code_simp
  from e1 have e3: "jws_verified test_platform default_settings
      (issued_example [(''sub'', PStr ''42'')])
      \<longrightarrow> time_claims_convertible (issued_example [(''sub'', PStr ''42'')])" by simp
  from verify_access_token_total[OF k e3, of "t0 + minutes 30"] e2
  have e: "verify_access_token (PyJWT test_platform) default_settings (t0 + minutes 30)
     (issued_example [(''sub'', PStr ''42'')]) = Inr PNone" by blast
  from k g1 g2 g e1 e2 e show ?thesis by blast
qed

text \<open>
  The claim as stated, for every token, fails: \<open>except jwt.InvalidTokenError\<close> catches the
  failures of a token only. A token that the service itself signed over a payload with
  \<open>"nbf": null\<close> makes \<open>jwt.decode\<close> evaluate \<open>int(None)\<close>, and the \<open>TypeError\<close> leaves
  \<open>verify_access_token\<close>.
\<close>

theorem verify_access_token_raises_counterexample:
  "issue_then_verify (PyJWT test_platform) default_settings t0
     [(''sub'', PStr ''42''), (''nbf'', PNone)] (Some (minutes 30)) default_settings t0
   = Inr (Inl TypeError)"
  by code_simp

text \<open>
  Claim C4 (acceptance invariant), as amended. A token for which \<open>verify_access_token\<close>
  returns a subject carries that subject under \<open>sub\<close>, not \<open>None\<close> but possibly the empty
  string, and an \<open>exp\<close> claim whose integer value, in seconds, is strictly later than the
  instant of the check. Under a key that the configured algorithm accepts, a token
  without a \<open>sub\<close> or without an \<open>exp\<close> claim gets \<open>None\<close>.
\<close>

theorem accepted_token_claims:
  "(verify_access_token (PyJWT P) s now tok = Inr v \<and> v \<noteq> PNone \<longrightarrow>
      map_of (token_claims tok) ''sub'' = Some v \<and>
      (\<exists>e n. map_of (token_claims tok) ''exp'' = Some e \<and> py_int P e = Inr n \<and>
             now < n * 1000000)) \<and>
   (key_accepted P s \<and>
      (dict_get (token_claims tok) ''sub'' = PNone \<or> dict_get (token_claims tok) ''exp'' = PNone)
      \<longrightarrow> verify_access_token (PyJWT P) s now tok = Inr PNone)"
proof -
  have first: "map_of (token_claims tok) ''sub'' = Some v \<and>
      (\<exists>e n. map_of (token_claims tok) ''exp'' = Some e \<and> py_int P e = Inr n \<and>
             now < n * 1000000)"
    if a: "verify_access_token (PyJWT P) s now tok = Inr v \<and> v \<noteq> PNone"
  proof (cases "pyjwt_decode P now tok (secret_key s) [algorithm s] [''exp'', ''sub'']")
    case (Inl e)
    with a show ?thesis by (cases e) (auto simp: verify_access_token_PyJWT)
  next
    case (Inr cs)
    from pyjwt_decode_Inr[OF this] have tc: "token_claims tok = cs"
      and val: "validate_claims P now cs [''exp'', ''sub''] = None" by simp_all
    from val have req: "validate_required_claims cs [''exp'', ''sub''] = None"
      and ex: "validate_exp P now cs = None"
      using validate_claims_None by blast+
    from a Inr have v: "dict_get cs ''sub'' = v" by (simp add: verify_access_token_PyJWT)
    from validate_required_None[OF req, of "''sub''"] obtain w where
      "map_of cs ''sub'' = Some w" by auto
    with v have sub: "map_of cs ''sub'' = Some v" by (simp add: dict_get_def)
    from validate_required_None[OF req, of "''exp''"] obtain e where
      e: "map_of cs ''exp'' = Some e" by auto
    from validate_exp_None[OF ex e] obtain n where "py_int P e = Inr n" "now < n * 1000000"
      by blast
    with sub e tc show ?thesis by blast
  qed
  have second: "verify_access_token (PyJWT P) s now tok = Inr PNone"
    if b: "key_accepted P s \<and>
      (dict_get (token_claims tok) ''sub'' = PNone \<or> dict_get (token_claims tok) ''exp'' = PNone)"
  proof (cases "pyjwt_decode P now tok (secret_key s) [algorithm s] [''exp'', ''sub'']")
    case (Inl e)
    have "is_token_error e"
    proof (cases tok)
      case (Malformed x)
      with Inl show ?thesis by (auto simp: pyjwt_decode_def)
    next
      case (Compact hdr payload sg)
      show ?thesis
      proof (cases "map_of hdr ''b64'' = Some (PBool False)")
        case True
        with Inl Compact show ?thesis by (auto simp: pyjwt_decode_def)
      next
        case False
        show ?thesis
        proof (cases "verify_signature P hdr payload sg (secret_key s) [algorithm s]")
          case (Some x)
          with b have "is_token_error x" by (blast intro: verify_signature_token_error)
          moreover from Inl Compact False Some have "e = x" by (auto simp: pyjwt_decode_def)
          ultimately show ?thesis by simp
        next
          case None
          show ?thesis
          proof (cases payload)
            case (PDict cs)
            with b Compact have "dict_get cs ''sub'' = PNone \<or> dict_get cs ''exp'' = PNone"
              by simp
            from validate_required_missing[OF this, of P now] obtain c where
              "validate_claims P now cs [''exp'', ''sub'']
                 = Some (InvalidTokenError (MissingRequiredClaimError c))" ..
            with Inl Compact False None PDict show ?thesis by (auto simp: pyjwt_decode_def)
          qed (use Inl Compact False None in \<open>auto simp: pyjwt_decode_def\<close>)
        qed
      qed
    qed
    with Inl show ?thesis by (rule verify_access_token_caught)
  next
    case (Inr cs)
    from pyjwt_decode_Inr[OF this] have tc: "token_claims tok = cs"
      and val: "validate_claims P now cs [''exp'', ''sub''] = None" by simp_all
    from b tc have "dict_get cs ''sub'' = PNone \<or> dict_get cs ''exp'' = PNone" by simp
    from validate_required_missing[OF this, of P now] val show ?thesis by simp
  qed
from first second show ?thesis by blast
qed

theorem accepted_token_claims_witness:
  "verify_access_token (PyJWT test_platform) default_settings t0
     (issued_example [(''sub'', PStr ''42'')]) = Inr (PStr ''42'') \<and>
   map_of (token_claims (issued_example [(''sub'', PStr ''42'')])) ''sub'' = Some (PStr ''42'') \<and>
   (\<exists>e n. map_of (token_claims (issued_example [(''sub'', PStr ''42'')])) ''exp'' = Some e \<and>
          py_int test_platform e = Inr n \<and> t0 < n * 1000000) \<and>
   key_accepted test_platform default_settings \<and>
   dict_get (token_claims (issued_example [(''role'', PStr ''admin'')])) ''sub'' = PNone \<and>
   verify_access_token (PyJWT test_platform) default_settings t0
     (issued_example [(''role'', PStr ''admin'')]) = Inr PNone"
proof -
  have a: "verify_access_token (PyJWT test_platform) default_settings t0
     (issued_example [(''sub'', PStr ''42'')]) = Inr (PStr ''42'')" by code_simp
  have k: "key_accepted test_platform default_settings" by code_simp
  have m: "dict_get (token_claims (issued_example [(''role'', PStr ''admin'')])) ''sub'' = PNone"
    by code_simp
  from accepted_token_claims[of test_platform default_settings t0
      "issued_example [(''sub'', PStr ''42'')]" "PStr ''42''"] a
  have 1: "map_of (token_claims (issued_example [(''sub'', PStr ''42'')])) ''sub'' = Some (PStr ''42'') \<and>
   (\<exists>e n. map_of (token_claims (issued_example [(''sub'', PStr ''42'')])) ''exp'' = Some e \<and>
          py_int test_platform e = Inr n \<and> t0 < n * 1000000)"
    by simp
  from accepted_token_claims[of test_platform default_settings t0
      "issued_example [(''role'', PStr ''admin'')]" PNone] k m
  have 2: "verify_access_token (PyJWT test_platform) default_settings t0
     (issued_example [(''role'', PStr ''admin'')]) = Inr PNone"
    by simp
  from a 1 k m 2 show ?thesis by blast
qed

text \<open>
  The claim as stated asks for a non-empty subject. The \<open>require\<close> option checks that the
  claim is there and not \<open>None\<close>: a token issued for \<open>{"sub": ""}\<close> is accepted, and the empty
  string is returned as its subject.
\<close>

theorem empty_subject_counterexample:
  "issue_then_verify (PyJWT test_platform) default_settings t0
     [(''sub'', PStr [])] (Some (minutes 30)) default_settings t0 = Inr (Inr (PStr []))"
  by code_simp




text \<open>
  Claim C6 (missing subject at issuance). For every claims dictionary without a \<open>sub\<close>
  claim, issuing and then verifying never yields a subject: either \<open>create_access_token\<close>
  raises, or \<open>verify_access_token\<close> returns \<open>None\<close> on the token it returned, at whatever
  instant it is verified.
\<close>

theorem no_subject_without_sub_claim:
  assumes "map_of data ''sub'' = None"
  shows "(\<exists>e. issue_then_verify (PyJWT P) s now data d s now' = Inl e) \<or>
         issue_then_verify (PyJWT P) s now data d s now' = Inr (Inr PNone)"
proof (cases "create_access_token (PyJWT P) s now data d")
  case (Inl e)
  then show ?thesis by (simp add: issue_then_verify_def)
next
  case (Inr tok)
  from create_access_token_PyJWT[OF this] obtain e obj kb where
    alg: "get_algorithm_by_name (algorithm s) = Some obj" and
    key: "prepare_key P obj (secret_key s) = Inr kb" and
    tok: "tok = Compact (jose_header (algorithm s)) (PDict (issued_claims e data))
                   (sign P obj (signing_input P (jose_header (algorithm s))
                      (PDict (issued_claims e data))) kb)"
    by blast
  have "verify_access_token (PyJWT P) s now' tok = Inr PNone"
  proof (cases obj)
    case NoneAlgorithm
    from alg NoneAlgorithm have a: "get_algorithm_by_name (algorithm s) = Some NoneAlgorithm"
      by simp
    from key NoneAlgorithm have k: "prepare_key P NoneAlgorithm (secret_key s) = Inr kb"
      by simp
    show ?thesis
      unfolding tok verify_access_token_PyJWT decode_issued_none[OF a k] by simp
  next
    case (HMACAlgorithm h B)
    have "map_of (issued_claims e data) ''sub'' = None"
      using assms by (simp add: map_of_issued_claims_other)
    with map_of_issued_claims_exp
    have "validate_claims P now' (issued_claims e data) [''exp'', ''sub'']
          = Some (InvalidTokenError (MissingRequiredClaimError ''sub''))"
      by (rule validate_required_missing_sub)
    then have v: "validate_claims P now' (issued_claims e data) [''exp'', ''sub'']
          = Some (InvalidTokenError (MissingRequiredClaimError ''sub''))" .
    from alg HMACAlgorithm
    have a: "get_algorithm_by_name (algorithm s) = Some (HMACAlgorithm h B)" by simp
    from key HMACAlgorithm
    have k: "prepare_key P (HMACAlgorithm h B) (secret_key s) = Inr kb" by simp
    show ?thesis
      unfolding tok HMACAlgorithm verify_access_token_PyJWT decode_issued_hmac[OF a k] v by simp
  qed
  with Inr show ?thesis by (simp add: issue_then_verify_def)
qed

theorem no_subject_without_sub_claim_witness:
  "map_of [(''role'', PStr ''admin'')] ''sub'' = None \<and>
   issue_then_verify (PyJWT test_platform) default_settings t0 [(''role'', PStr ''admin'')]
     (Some (minutes 30)) default_settings t0 = Inr (Inr PNone)"
proof -
  have h: "map_of [(''role'', PStr ''admin'')] ''sub'' = None" by simp
  have c: "create_access_token (PyJWT test_platform) default_settings t0
      [(''role'', PStr ''admin'')] (Some (minutes 30))
      = Inr (issued_example [(''role'', PStr ''admin'')])" by code_simp
  then have "\<not> (\<exists>e. issue_then_verify (PyJWT test_platform) default_settings t0
      [(''role'', PStr ''admin'')] (Some (minutes 30)) default_settings t0 = Inl e)"
    by (simp add: issue_then_verify_def)
  with no_subject_without_sub_claim[OF h, of test_platform default_settings t0
      "Some (minutes 30)" t0]
  have "issue_then_verify (PyJWT test_platform) default_settings t0 [(''role'', PStr ''admin'')]
     (Some (minutes 30)) default_settings t0 = Inr (Inr PNone)" by blast
  with h show ?thesis by blast
qed


text \<open>
  Claim C9. Issuance has no effect on its input: after \<open>create_access_token\<close> the caller's
  dictionary object is what it was (the \<open>exp\<close> claim reaches only the copy), every
  dictionary object that existed before the call is unchanged, configuration and clock are
  unchanged, and the only new object is the internal copy.
\<close>

theorem create_access_token_frame:
  assumes "data < length (heap st)"
  shows "heap (snd (create_access_token_proc J st data expires_delta)) ! data = heap st ! data \<and>
         take (length (heap st)) (heap (snd (create_access_token_proc J st data expires_delta)))
           = heap st \<and>
         length (heap (snd (create_access_token_proc J st data expires_delta)))
           = Suc (length (heap st)) \<and>
         config (snd (create_access_token_proc J st data expires_delta)) = config st \<and>
         clock (snd (create_access_token_proc J st data expires_delta)) = clock st"
  using assms
  by (simp add: create_access_token_proc_def Let_def nth_append split: sum.splits)

theorem create_access_token_frame_witness:
  "(0::nat) < length (heap example_process) \<and>
   heap (snd (create_access_token_proc (PyJWT test_platform) example_process 0
               (Some (minutes 30)))) ! 0 = [(''sub'', PStr ''42'')] \<and>
   take (length (heap example_process))
     (heap (snd (create_access_token_proc (PyJWT test_platform) example_process 0
                  (Some (minutes 30))))) = heap example_process \<and>
   heap (snd (create_access_token_proc (PyJWT test_platform) example_process 0
               (Some (minutes 30)))) ! 1
     = [(''sub'', PStr ''42''), (''exp'', PDatetime (t0 + minutes 30))]"
proof -
  have h: "(0::nat) < length (heap example_process)" by (simp add: example_process_def)
  have o: "heap example_process ! 0 = [(''sub'', PStr ''42'')]" by (simp add: example_process_def)
  have n: "heap (snd (create_access_token_proc (PyJWT test_platform) example_process 0
               (Some (minutes 30)))) ! 1
     = [(''sub'', PStr ''42''), (''exp'', PDatetime (t0 + minutes 30))]"
    by code_simp
  from create_access_token_frame[OF h, of "PyJWT test_platform" "Some (minutes 30)"] o n h
  show ?thesis by simp
qed




end
